theory Spec2Isabelle
  imports Main "HOL-Library.AList"
begin

section \<open>Python values\<close>

text \<open>
  The values that reach \<^verbatim>\<open>tavern/testutils/pytesthook/util.py\<close>: what the option
  stores of the test framework hold (None, booleans, strings, lists of strings) and what
  a YAML document holds (dictionaries with string keys, lists, strings, integers).

  A list or a dictionary is a mutable object, so it carries the identity of the object
  it is a snapshot of (its first argument): two lists with the same items and different
  identities are equal for \<^verbatim>\<open>==\<close> and different for \<^verbatim>\<open>is\<close>. Equality of HOL
  values is therefore identity for None, the booleans, lists and dictionaries. A
  dictionary keeps its entries in insertion order.
\<close>

datatype pyval =
    PNone
  | PBool bool
  | PInt int
  | PStr string
  | PList nat "pyval list"
  | PDict nat "(string \<times> pyval) list"

text \<open>Exceptions. \<open>Raised\<close> is any exception that a collaborator raises by itself.\<close>

datatype exn =
    KeyError string
  | TypeError
  | InvalidConfigurationException string
  | Raised string

text \<open>Truth value testing (\<^verbatim>\<open>if x\<close>, \<^verbatim>\<open>x or y\<close>, \<^verbatim>\<open>x and y\<close>).\<close>

fun truthy :: "pyval \<Rightarrow> bool" where
  "truthy PNone = False"
| "truthy (PBool b) = b"
| "truthy (PInt n) = (n \<noteq> 0)"
| "truthy (PStr s) = (s \<noteq> [])"
| "truthy (PList i xs) = (xs \<noteq> [])"
| "truthy (PDict i d) = (d \<noteq> [])"

text \<open>
  \<^verbatim>\<open>x == y\<close>: identities are ignored, a boolean is the integer 0 or 1, lists are
  compared item by item and dictionaries key by key.
\<close>

fun py_eq :: "pyval \<Rightarrow> pyval \<Rightarrow> bool"
  and list_eq :: "pyval list \<Rightarrow> pyval list \<Rightarrow> bool"
  and dict_sub :: "(string \<times> pyval) list \<Rightarrow> (string \<times> pyval) list \<Rightarrow> bool"
where
  "py_eq PNone y = (y = PNone)"
| "py_eq (PBool a) y =
     (case y of PBool b \<Rightarrow> a = b | PInt n \<Rightarrow> (if a then 1 else 0) = n | _ \<Rightarrow> False)"
| "py_eq (PInt m) y =
     (case y of PBool b \<Rightarrow> m = (if b then 1 else 0) | PInt n \<Rightarrow> m = n | _ \<Rightarrow> False)"
| "py_eq (PStr s) y = (case y of PStr t \<Rightarrow> s = t | _ \<Rightarrow> False)"
| "py_eq (PList i xs) y = (case y of PList j ys \<Rightarrow> list_eq xs ys | _ \<Rightarrow> False)"
| "py_eq (PDict i d) y =
     (case y of PDict j e \<Rightarrow> dict_sub d e \<and> list_all (\<lambda>k. k \<in> set (map fst d)) (map fst e)
      | _ \<Rightarrow> False)"
| "list_eq [] ys = (ys = [])"
| "list_eq (x # xs) ys = (case ys of [] \<Rightarrow> False | y # ys' \<Rightarrow> py_eq x y \<and> list_eq xs ys')"
| "dict_sub [] e = True"
| "dict_sub ((k, v) # d) e =
     (case map_of e k of None \<Rightarrow> False | Some v' \<Rightarrow> py_eq v v' \<and> dict_sub d e)"

text \<open>\<^verbatim>\<open>x in xs\<close> for a list: some item is \<^verbatim>\<open>x\<close> or equal to it.\<close>

definition py_in :: "pyval \<Rightarrow> pyval list \<Rightarrow> bool" where
  "py_in x xs = list_ex (\<lambda>v. x = v \<or> py_eq x v) xs"

text \<open>\<^verbatim>\<open>d[k]\<close> and \<^verbatim>\<open>d[k] = v\<close> with a string key.\<close>

fun py_getitem :: "pyval \<Rightarrow> string \<Rightarrow> exn + pyval" where
  "py_getitem (PDict i d) k = (case map_of d k of None \<Rightarrow> Inl (KeyError k) | Some v \<Rightarrow> Inr v)"
| "py_getitem _ k = Inl TypeError"

fun py_setitem :: "pyval \<Rightarrow> string \<Rightarrow> pyval \<Rightarrow> exn + pyval" where
  "py_setitem (PDict i d) k v = Inr (PDict i (AList.update k v d))"
| "py_setitem _ k v = Inl TypeError"

text \<open>\<^verbatim>\<open>s.replace(old, new)\<close> for one-character \<^verbatim>\<open>old\<close> and \<^verbatim>\<open>new\<close>.\<close>

definition str_replace :: "string \<Rightarrow> char \<Rightarrow> char \<Rightarrow> string" where
  "str_replace s old new = map (\<lambda>c. if c = old then new else c) s"

section \<open>The world: collaborators and observable effects\<close>

text \<open>
  The settings handle of the test framework (\<^verbatim>\<open>pytest_config\<close>). \<open>ident\<close> is the
  identity of the object, which is what it hashes and compares by. The two stores answer
  a query with a value, None when they have none, or raise.
\<close>

record pytest_config =
  ident :: nat
  getini :: "string \<Rightarrow> exn + pyval"
  getoption :: "string \<Rightarrow> exn + pyval"

text \<open>
  The imported collaborators and the process environment: the file loader
  \<^verbatim>\<open>tavern.util.general.load_global_config\<close>, the formatter
  \<^verbatim>\<open>tavern.util.dict_util.format_keys\<close>, the constructor \<^verbatim>\<open>box.Box\<close>,
  \<^verbatim>\<open>os.environ\<close>, and the rendering of a value that \<^verbatim>\<open>str.format\<close> applies to
  an argument of \<^verbatim>\<open>{}\<close>.
\<close>

record env =
  load_global_config :: "pyval \<Rightarrow> exn + pyval"
  format_keys :: "pyval \<Rightarrow> pyval \<Rightarrow> exn + pyval"
  Box :: "pyval \<Rightarrow> exn + pyval"
  environ :: "(string \<times> string) list"
  render :: "pyval \<Rightarrow> string"

datatype query = GetIni string | GetOption string

text \<open>
  How \<^verbatim>\<open>load_global_cfg\<close> is called: with the handle as a positional argument, or
  as the keyword argument \<^verbatim>\<open>pytest_config\<close>. The cache of the standard library
  keeps the two apart.
\<close>

datatype call = Positional | Keyword

text \<open>
  The state a call runs in: the next free object identity, the calls made so far to the
  stores, to the loader, to the formatter, to \<^verbatim>\<open>logger.debug\<close> and to the
  \<^verbatim>\<open>parser_addoption\<close> callback, and the entries of the \<^verbatim>\<open>lru_cache\<close> of
  \<^verbatim>\<open>load_global_cfg\<close>, most recently used first, each under the way of the call
  and the identity of the handle.
\<close>

record world =
  next_id :: nat
  queries :: "query list"
  loads :: "pyval list"
  formats :: "(pyval \<times> pyval) list"
  debugs :: "(string \<times> pyval list) list"
  addoptions :: "(string \<times> (string \<times> pyval) list) list"
  cache :: "((call \<times> nat) \<times> pyval) list"

type_synonym 'a action = "world \<Rightarrow> (exn + 'a) \<times> world"

definition ret :: "'a \<Rightarrow> 'a action" where
  "ret x w = (Inr x, w)"

definition raise :: "exn \<Rightarrow> 'a action" where
  "raise e w = (Inl e, w)"

text \<open>Sequencing: an exception of the first action ends the run.\<close>

definition seq :: "'a action \<Rightarrow> ('a \<Rightarrow> 'b action) \<Rightarrow> 'b action" where
  "seq m f w = (case m w of (Inl e, w') \<Rightarrow> (Inl e, w') | (Inr x, w') \<Rightarrow> f x w')"

text \<open>The result of a pure step, raised if it is an exception.\<close>

definition lift :: "exn + 'a \<Rightarrow> 'a action" where
  "lift r w = (r, w)"

text \<open>Object creation: \<^verbatim>\<open>[...]\<close> and \<^verbatim>\<open>{...}\<close> make a new object.\<close>

definition new_list :: "pyval list \<Rightarrow> pyval action" where
  "new_list xs w = (Inr (PList (next_id w) xs), w\<lparr>next_id := Suc (next_id w)\<rparr>)"

definition new_dict :: "(string \<times> pyval) list \<Rightarrow> pyval action" where
  "new_dict d w = (Inr (PDict (next_id w) d), w\<lparr>next_id := Suc (next_id w)\<rparr>)"

text \<open>Calls into the stores, recorded.\<close>

definition call_getini :: "pytest_config \<Rightarrow> string \<Rightarrow> pyval action" where
  "call_getini cfg k w = (getini cfg k, w\<lparr>queries := queries w @ [GetIni k]\<rparr>)"

definition call_getoption :: "pytest_config \<Rightarrow> string \<Rightarrow> pyval action" where
  "call_getoption cfg k w = (getoption cfg k, w\<lparr>queries := queries w @ [GetOption k]\<rparr>)"

text \<open>Calls into the loader, the formatter and the logger, recorded.\<close>

definition call_load_global_config :: "env \<Rightarrow> pyval \<Rightarrow> pyval action" where
  "call_load_global_config E paths w = (load_global_config E paths, w\<lparr>loads := loads w @ [paths]\<rparr>)"

definition call_format_keys :: "env \<Rightarrow> pyval \<Rightarrow> pyval \<Rightarrow> pyval action" where
  "call_format_keys E v ctx w = (format_keys E v ctx, w\<lparr>formats := formats w @ [(v, ctx)]\<rparr>)"

definition logger_debug :: "string \<Rightarrow> pyval list \<Rightarrow> unit action" where
  "logger_debug msg args w = (Inr (), w\<lparr>debugs := debugs w @ [(msg, args)]\<rparr>)"

text \<open>
  The callback \<^verbatim>\<open>parser_addoption(name, **kwargs)\<close>: the keyword arguments in the
  order they are written, the call recorded.
\<close>

definition call_addoption ::
  "(string \<Rightarrow> (string \<times> pyval) list \<Rightarrow> exn + pyval) \<Rightarrow> string \<Rightarrow> (string \<times> pyval) list
    \<Rightarrow> pyval action" where
  "call_addoption parser_addoption name kwargs w =
     (parser_addoption name kwargs, w\<lparr>addoptions := addoptions w @ [(name, kwargs)]\<rparr>)"

text \<open>
  \<^verbatim>\<open>x + y\<close>: two lists make a new list, two strings a string, booleans and integers
  add as integers, anything else is a TypeError.
\<close>

fun num_of :: "pyval \<Rightarrow> int option" where
  "num_of (PBool b) = Some (if b then 1 else 0)"
| "num_of (PInt n) = Some n"
| "num_of _ = None"

definition py_add :: "pyval \<Rightarrow> pyval \<Rightarrow> pyval action" where
  "py_add x y =
     (case (x, y) of
        (PList i xs, PList j ys) \<Rightarrow> new_list (xs @ ys)
      | (PStr s, PStr t) \<Rightarrow> ret (PStr (s @ t))
      | _ \<Rightarrow> (case (num_of x, num_of y) of
                (Some a, Some b) \<Rightarrow> ret (PInt (a + b))
              | _ \<Rightarrow> raise TypeError))"

text \<open>\<^verbatim>\<open>x or []\<close>: \<^verbatim>\<open>x\<close> itself when it is true, a new empty list otherwise.\<close>

definition or_empty_list :: "pyval \<Rightarrow> pyval action" where
  "or_empty_list x = (if truthy x then ret x else new_list [])"

section \<open>The three-tier option resolver\<close>

text \<open>
  \<^verbatim>\<open>
  def get_option_generic(pytest_config, flag, default):
      ini_flag = flag.replace("-", "_")
      cli_flag = flag

      if pytest_config.getini(ini_flag) is not None:
          return pytest_config.getini(ini_flag)
      elif pytest_config.getoption(cli_flag) is not None:
          return pytest_config.getoption(cli_flag)
      else:
          return default
  \<close>
\<close>

definition get_option_generic :: "pytest_config \<Rightarrow> string \<Rightarrow> pyval \<Rightarrow> pyval action" where
  "get_option_generic cfg flag dflt =
     (let ini_flag = str_replace flag (CHR ''-'') (CHR ''_'');
          cli_flag = flag
      in seq (call_getini cfg ini_flag) (\<lambda>a.
           if a \<noteq> PNone then call_getini cfg ini_flag
           else seq (call_getoption cfg cli_flag) (\<lambda>c.
             if c \<noteq> PNone then call_getoption cfg cli_flag
             else ret dflt)))"

section \<open>The global configuration loader\<close>

text \<open>
  Lines 76 to 81 of \<^verbatim>\<open>load_global_cfg\<close>:
  \<^verbatim>\<open>
      ini_global_cfg_paths = pytest_config.getini("tavern-global-cfg") or []
      cmdline_global_cfg_paths = pytest_config.getoption("tavern_global_cfg") or []
      all_paths = ini_global_cfg_paths + cmdline_global_cfg_paths
  \<close>
\<close>

definition collect_paths :: "pytest_config \<Rightarrow> pyval action" where
  "collect_paths cfg =
     seq (call_getini cfg ''tavern-global-cfg'') (\<lambda>i.
     seq (or_empty_list i) (\<lambda>ini_global_cfg_paths.
     seq (call_getoption cfg ''tavern_global_cfg'') (\<lambda>c.
     seq (or_empty_list c) (\<lambda>cmdline_global_cfg_paths.
     py_add ini_global_cfg_paths cmdline_global_cfg_paths))))"

text \<open>
  Lines 84 to 91:
  \<^verbatim>\<open>
      try:
          loaded_variables = global_cfg["variables"]
      except KeyError:
          logger.debug("Nothing to format in global config files")
      else:
          tavern_box = Box({"tavern": {"env_vars": dict(os.environ)}})
          global_cfg["variables"] = format_keys(loaded_variables, tavern_box)
  \<close>
\<close>

definition format_variables :: "env \<Rightarrow> pyval \<Rightarrow> pyval action" where
  "format_variables E global_cfg =
     (case py_getitem global_cfg ''variables'' of
        Inl (KeyError k) \<Rightarrow>
          seq (logger_debug ''Nothing to format in global config files'' []) (\<lambda>_.
          ret global_cfg)
      | Inl e \<Rightarrow> raise e
      | Inr loaded_variables \<Rightarrow>
          seq (new_dict (map (\<lambda>(k, v). (k, PStr v)) (environ E))) (\<lambda>env_vars.
          seq (new_dict [(''env_vars'', env_vars)]) (\<lambda>inner.
          seq (new_dict [(''tavern'', inner)]) (\<lambda>outer.
          seq (lift (Box E outer)) (\<lambda>tavern_box.
          seq (call_format_keys E loaded_variables tavern_box) (\<lambda>formatted.
          lift (py_setitem global_cfg ''variables'' formatted)))))))"

text \<open>
  Lines 93 to 103:
  \<^verbatim>\<open>
      strict = get_option_generic(pytest_config, "tavern-strict", [])
      if isinstance(strict, list):
          valid_keys = ["body", "headers", "redirect_query_params"]
          if any(i not in valid_keys for i in strict):
              msg = "Invalid values for 'strict' given - expected one of {}, got {}".format(
                  valid_keys, strict
              )
              raise exceptions.InvalidConfigurationException(msg)
      global_cfg["strict"] = strict
  \<close>
\<close>

definition valid_keys :: "pyval list" where
  "valid_keys = [PStr ''body'', PStr ''headers'', PStr ''redirect_query_params'']"

definition strict_msg :: "env \<Rightarrow> pyval \<Rightarrow> pyval \<Rightarrow> string" where
  "strict_msg E valid strict =
     ''Invalid values for 'strict' given - expected one of '' @ render E valid
       @ '', got '' @ render E strict"

definition resolve_strict :: "env \<Rightarrow> pytest_config \<Rightarrow> pyval \<Rightarrow> pyval action" where
  "resolve_strict E cfg global_cfg =
     seq (new_list []) (\<lambda>empty.
     seq (get_option_generic cfg ''tavern-strict'' empty) (\<lambda>strict.
     seq (case strict of
            PList j items \<Rightarrow>
              seq (new_list valid_keys) (\<lambda>valid.
                if list_ex (\<lambda>i. \<not> py_in i valid_keys) items
                then raise (InvalidConfigurationException (strict_msg E valid strict))
                else ret ())
          | _ \<Rightarrow> ret ()) (\<lambda>_.
     lift (py_setitem global_cfg ''strict'' strict))))"

text \<open>
  Lines 105 to 116:
  \<^verbatim>\<open>
      global_cfg["backends"] = {}
      backends = ["http", "mqtt"]
      for b in backends:
          ini_opt = pytest_config.getini("tavern-{}-backend".format(b))
          cli_opt = pytest_config.getoption("tavern_{}_backend".format(b))

          in_use = ini_opt
          if cli_opt and (cli_opt != ini_opt):
              in_use = cli_opt

          global_cfg["backends"][b] = in_use
  \<close>
  The assignment changes the dictionary under \<^verbatim>\<open>"backends"\<close> in place; in the model
  the changed dictionary is put back under its key.
\<close>

fun backends_loop :: "pytest_config \<Rightarrow> string list \<Rightarrow> pyval \<Rightarrow> pyval action" where
  "backends_loop cfg [] global_cfg = ret global_cfg"
| "backends_loop cfg (b # bs) global_cfg =
     seq (call_getini cfg (''tavern-'' @ b @ ''-backend'')) (\<lambda>ini_opt.
     seq (call_getoption cfg (''tavern_'' @ b @ ''_backend'')) (\<lambda>cli_opt.
     seq (lift (py_getitem global_cfg ''backends'')) (\<lambda>in_place.
     seq (lift (py_setitem in_place b
            (if truthy cli_opt \<and> \<not> py_eq cli_opt ini_opt then cli_opt else ini_opt))) (\<lambda>changed.
     seq (lift (py_setitem global_cfg ''backends'' changed)) (\<lambda>global_cfg'.
     backends_loop cfg bs global_cfg')))))"

definition resolve_backends :: "pytest_config \<Rightarrow> pyval \<Rightarrow> pyval action" where
  "resolve_backends cfg global_cfg =
     seq (new_dict []) (\<lambda>empty.
     seq (lift (py_setitem global_cfg ''backends'' empty)) (\<lambda>global_cfg'.
     seq (new_list [PStr ''http'', PStr ''mqtt'']) (\<lambda>backends.
     backends_loop cfg [''http'', ''mqtt''] global_cfg')))"

text \<open>
  The function under the decorator (lines 63 to 120): the four blocks, the call of the
  loader between the first two, and
  \<^verbatim>\<open>
      logger.debug("Global config: %s", global_cfg)
      return global_cfg
  \<close>
\<close>

definition load_global_cfg_body :: "env \<Rightarrow> pytest_config \<Rightarrow> pyval action" where
  "load_global_cfg_body E cfg =
     seq (collect_paths cfg) (\<lambda>all_paths.
     seq (call_load_global_config E all_paths) (\<lambda>loaded.
     seq (format_variables E loaded) (\<lambda>formatted.
     seq (resolve_strict E cfg formatted) (\<lambda>with_strict.
     seq (resolve_backends cfg with_strict) (\<lambda>global_cfg.
     seq (logger_debug ''Global config: %s'' [global_cfg]) (\<lambda>_.
     ret global_cfg))))))"

text \<open>
  The rest of the function from line 93 on, and from line 105 on, as they stand in
  \<open>load_global_cfg_body\<close>.
\<close>

abbreviation from_backends :: "pytest_config \<Rightarrow> pyval \<Rightarrow> pyval action" where
  "from_backends cfg with_strict \<equiv>
     seq (resolve_backends cfg with_strict) (\<lambda>global_cfg.
     seq (logger_debug ''Global config: %s'' [global_cfg]) (\<lambda>_.
     ret global_cfg))"

abbreviation from_strict :: "env \<Rightarrow> pytest_config \<Rightarrow> pyval \<Rightarrow> pyval action" where
  "from_strict E cfg formatted \<equiv>
     seq (resolve_strict E cfg formatted) (\<lambda>with_strict. from_backends cfg with_strict)"

text \<open>
  \<^verbatim>\<open>@lru_cache()\<close> of the standard library, with its default size of 128 entries.
  An entry stands under the way of the call and the handle, and holds the object that
  the function returned. A hit returns that object and makes the entry the most recently
  used; a miss runs the function, and when it returns (an exception stores nothing) the
  result becomes the most recently used entry and the least recently used one is dropped
  from a full cache.

  The cache holds the objects themselves, not copies. What the loader returns is the
  object with the content it has at that moment, so an entry that holds the same object
  has that content from then on. The run then changes the object in place (lines 91,
  103, 105 and 116), also when it raises afterwards, and every entry that holds the
  object shows it as the run left it. \<open>left_as\<close> is the document of a run in that
  state: the blocks that assign to it are run one after the other on the loaded document
  until one raises; each of them assigns in its last step. A run that raises before the
  loader has returned leaves no object behind. Entries are compared by the identity of
  the object they hold (\<open>same_object\<close>).
\<close>

definition lru_maxsize :: nat where
  "lru_maxsize = 128"

fun same_object :: "pyval \<Rightarrow> pyval \<Rightarrow> bool" where
  "same_object (PDict i d) (PDict j e) = (i = j)"
| "same_object (PList i xs) (PList j ys) = (i = j)"
| "same_object _ _ = False"

fun progress :: "(pyval \<Rightarrow> pyval action) list \<Rightarrow> pyval \<Rightarrow> world \<Rightarrow> pyval" where
  "progress [] g w = g"
| "progress (step # steps) g w =
     (case step g w of (Inl e, w') \<Rightarrow> g | (Inr g', w') \<Rightarrow> progress steps g' w')"

definition left_as :: "env \<Rightarrow> pytest_config \<Rightarrow> world \<Rightarrow> pyval option" where
  "left_as E cfg w =
     (case seq (collect_paths cfg) (call_load_global_config E) w of
        (Inl e, w') \<Rightarrow> None
      | (Inr loaded, w') \<Rightarrow>
          Some (progress
            [format_variables E,
             resolve_strict E cfg,
             (\<lambda>g. seq (new_dict []) (\<lambda>empty. lift (py_setitem g ''backends'' empty))),
             (\<lambda>g. seq (new_list [PStr ''http'', PStr ''mqtt'']) (\<lambda>backends.
                    backends_loop cfg [''http''] g)),
             backends_loop cfg [''mqtt'']]
            loaded w'))"

definition refresh ::
  "pyval option \<Rightarrow> ((call \<times> nat) \<times> pyval) list \<Rightarrow> ((call \<times> nat) \<times> pyval) list" where
  "refresh obj entries =
     (case obj of
        None \<Rightarrow> entries
      | Some g \<Rightarrow> map (\<lambda>(k, v). (k, if same_object v g then g else v)) entries)"

definition load_global_cfg :: "env \<Rightarrow> call \<Rightarrow> pytest_config \<Rightarrow> pyval action" where
  "load_global_cfg E how cfg w =
     (case map_of (cache w) (how, ident cfg) of
        Some r \<Rightarrow>
          (Inr r, w\<lparr>cache := ((how, ident cfg), r)
                      # filter (\<lambda>p. fst p \<noteq> (how, ident cfg)) (cache w)\<rparr>)
      | None \<Rightarrow>
          (case load_global_cfg_body E cfg w of
             (Inl e, w') \<Rightarrow> (Inl e, w'\<lparr>cache := refresh (left_as E cfg w) (cache w')\<rparr>)
           | (Inr r, w') \<Rightarrow>
               (Inr r, w'\<lparr>cache := take lru_maxsize
                  (((how, ident cfg), r) # refresh (Some r) (cache w'))\<rparr>)))"

section \<open>Option registration\<close>

text \<open>
  \<^verbatim>\<open>add_parser_options(parser_addoption, with_defaults=True)\<close>: six calls of the
  callback, in this order, each with the keyword arguments of the source. The
  character \<open>CHR 0x5C\<close> is the backslash of the regular expression
  \<^verbatim>\<open>.+\.tavern\.ya?ml$\<close>.
\<close>

definition add_parser_options ::
  "(string \<Rightarrow> (string \<times> pyval) list \<Rightarrow> exn + pyval) \<Rightarrow> bool \<Rightarrow> pyval action" where
  "add_parser_options parser_addoption with_defaults =
     seq (call_addoption parser_addoption ''--tavern-global-cfg''
            [(''help'', PStr ''One or more global configuration files to include in every test''),
             (''required'', PBool False),
             (''nargs'', PStr ''+'')]) (\<lambda>_.
     seq (call_addoption parser_addoption ''--tavern-http-backend''
            [(''help'', PStr ''Which http backend to use''),
             (''default'', if with_defaults then PStr ''requests'' else PNone)]) (\<lambda>_.
     seq (call_addoption parser_addoption ''--tavern-mqtt-backend''
            [(''help'', PStr ''Which mqtt backend to use''),
             (''default'', if with_defaults then PStr ''paho-mqtt'' else PNone)]) (\<lambda>_.
     seq (new_list [PStr ''body'', PStr ''headers'', PStr ''redirect_query_params'']) (\<lambda>choices.
     seq (call_addoption parser_addoption ''--tavern-strict''
            [(''help'', PStr ''Default response matching strictness''),
             (''default'', PNone),
             (''nargs'', PStr ''+''),
             (''choices'', choices)]) (\<lambda>_.
     seq (call_addoption parser_addoption ''--tavern-beta-new-traceback''
            [(''help'', PStr ''Use new traceback style (beta)''),
             (''default'', PBool False),
             (''action'', PStr ''store_true'')]) (\<lambda>_.
     seq (call_addoption parser_addoption ''--tavern-file-path-regex''
            [(''help'', PStr ''Regex to search for Tavern YAML test files''),
             (''default'', PStr (''.+'' @ [CHR 0x5C] @ ''.tavern'' @ [CHR 0x5C] @ ''.ya?ml$'')),
             (''action'', PStr ''store''),
             (''nargs'', PInt 1)]) (\<lambda>_.
     ret PNone)))))))"

section \<open>Inputs for the examples\<close>

text \<open>
  A world in which nothing has happened yet, a handle built from two tables (a key
  that a table lacks has no value), and collaborators that load one fixed document.
\<close>

definition world0 :: world where
  "world0 = \<lparr>next_id = 0, queries = [], loads = [], formats = [], debugs = [],
     addoptions = [], cache = []\<rparr>"

definition config_of :: "nat \<Rightarrow> (string \<times> pyval) list \<Rightarrow> (string \<times> pyval) list \<Rightarrow> pytest_config" where
  "config_of n ini cli =
     \<lparr>ident = n,
      getini = (\<lambda>k. case map_of ini k of None \<Rightarrow> Inr PNone | Some v \<Rightarrow> Inr v),
      getoption = (\<lambda>k. case map_of cli k of None \<Rightarrow> Inr PNone | Some v \<Rightarrow> Inr v)\<rparr>"

definition env_of :: "pyval \<Rightarrow> env" where
  "env_of doc =
     \<lparr>load_global_config = (\<lambda>paths. Inr doc),
      format_keys = (\<lambda>v ctx. Inr (PDict 102 [(''host'', PStr ''localhost'')])),
      Box = (\<lambda>d. case d of PDict i kv \<Rightarrow> Inr (PDict 103 kv) | _ \<Rightarrow> Inl (Raised ''BoxError'')),
      environ = [(''HOST'', ''localhost'')],
      render = (\<lambda>v. case v of PList i xs \<Rightarrow> ''a list of '' @ replicate (length xs) (CHR ''*'')
                       | _ \<Rightarrow> ''a value'')\<rparr>"

definition doc_plain :: pyval where
  "doc_plain = PDict 100 [(''name'', PStr ''demo'')]"

definition doc_vars :: pyval where
  "doc_vars = PDict 100 [(''name'', PStr ''demo''),
     (''variables'', PDict 101 [(''host'', PStr ''{tavern.env_vars.HOST}'')])]"

text \<open>
  Calls made one after the other, whatever each of them returns or raises, and the
  handles with the given identities and empty tables, each passed positionally.
\<close>

fun call_each :: "env \<Rightarrow> (call \<times> pytest_config) list \<Rightarrow> world \<Rightarrow> world" where
  "call_each E [] w = w"
| "call_each E (c # cs) w = call_each E cs (snd (load_global_cfg E (fst c) (snd c) w))"


section \<open>Reasoning about runs\<close>

text \<open>
  The definitions of the actions, and two rules for sequences: a sequence returns when
  both parts do, and it leaves alone what both parts leave alone.
\<close>

lemmas action_defs = seq_def ret_def raise_def lift_def new_list_def new_dict_def
  call_getini_def call_getoption_def call_load_global_config_def call_format_keys_def
  logger_debug_def call_addoption_def

lemma seq_Inr: "seq m f w = (Inr y, w') \<longleftrightarrow> (\<exists>x w1. m w = (Inr x, w1) \<and> f x w1 = (Inr y, w'))"
  by (auto simp: seq_def split: prod.splits sum.splits)

lemma frame_seq:
  assumes "\<And>w. F (snd (m w)) = F w" and "\<And>x w. F (snd (f x w)) = F w"
  shows "F (snd (seq m f w)) = F w"
proof (cases "m w")
  case (Pair r w1)
  have "F w1 = F w" using assms(1) [of w] Pair by simp
  then show ?thesis using assms(2) Pair by (cases r) (simp_all add: seq_def)
qed

lemma py_eq_PStr [simp]: "py_eq x (PStr s) = (x = PStr s)"
  by (cases x) auto

lemma py_in_valid_keys: "py_in x valid_keys = (x \<in> set valid_keys)"
  by (auto simp: py_in_def valid_keys_def)

lemma get_option_generic_frame:
  assumes "\<And>w q. F (w\<lparr>queries := q\<rparr>) = F w"
  shows "F (snd (get_option_generic cfg flag dflt w)) = F w"
  using assms
  by (simp add: get_option_generic_def Let_def seq_def call_getini_def call_getoption_def ret_def
      split: sum.splits prod.splits)

lemma collect_paths_frame:
  assumes "\<And>w q. F (w\<lparr>queries := q\<rparr>) = F w" and "\<And>w n. F (w\<lparr>next_id := n\<rparr>) = F w"
  shows "F (snd (collect_paths cfg w)) = F w"
  using assms
  by (simp add: collect_paths_def or_empty_list_def py_add_def action_defs
      split: sum.splits prod.splits pyval.splits option.splits)

lemma format_variables_frame:
  assumes "\<And>w q. F (w\<lparr>formats := q\<rparr>) = F w" and "\<And>w n. F (w\<lparr>next_id := n\<rparr>) = F w"
     and "\<And>w n. F (w\<lparr>debugs := n\<rparr>) = F w"
  shows "F (snd (format_variables E g w)) = F w"
  using assms
  by (simp add: format_variables_def action_defs
      split: sum.splits prod.splits exn.splits)

lemma resolve_strict_frame:
  assumes q: "\<And>w q. F (w\<lparr>queries := q\<rparr>) = F w" and n: "\<And>w n. F (w\<lparr>next_id := n\<rparr>) = F w"
  shows "F (snd (resolve_strict E cfg g w)) = F w"
  unfolding resolve_strict_def
  apply (rule frame_seq)
   apply (simp add: new_list_def n)
  apply (rule frame_seq)
   apply (rule get_option_generic_frame, rule q)
  apply (rule frame_seq)
   apply (simp add: action_defs n split: pyval.splits)
  apply (simp add: lift_def)
  done

lemma backends_loop_frame:
  assumes q: "\<And>w q. F (w\<lparr>queries := q\<rparr>) = F w"
  shows "F (snd (backends_loop cfg bs g w)) = F w"
proof (induction bs arbitrary: g w)
  case Nil
  then show ?case by (simp add: ret_def)
next
  case (Cons b bs)
  show ?case
    unfolding backends_loop.simps
    apply (rule frame_seq, simp add: call_getini_def q)
    apply (rule frame_seq, simp add: call_getoption_def q)
    apply (rule frame_seq, simp add: lift_def)
    apply (rule frame_seq, simp add: lift_def)
    apply (rule frame_seq, simp add: lift_def)
    apply (rule Cons.IH)
    done
qed

lemma resolve_backends_frame:
  assumes q: "\<And>w q. F (w\<lparr>queries := q\<rparr>) = F w" and n: "\<And>w n. F (w\<lparr>next_id := n\<rparr>) = F w"
  shows "F (snd (resolve_backends cfg g w)) = F w"
  unfolding resolve_backends_def
  apply (rule frame_seq, simp add: new_dict_def n)
  apply (rule frame_seq, simp add: lift_def)
  apply (rule frame_seq, simp add: new_list_def n)
  apply (rule backends_loop_frame, rule q)
  done

lemma body_Inr:
  assumes "load_global_cfg_body E cfg w = (Inr g, w')"
  shows "\<exists>paths w1 loaded formatted w2 with_strict w3 w4.
      collect_paths cfg w = (Inr paths, w1)
    \<and> load_global_config E paths = Inr loaded
    \<and> format_variables E loaded (w1\<lparr>loads := loads w1 @ [paths]\<rparr>) = (Inr formatted, w2)
    \<and> resolve_strict E cfg formatted w2 = (Inr with_strict, w3)
    \<and> resolve_backends cfg with_strict w3 = (Inr g, w4)
    \<and> w' = w4\<lparr>debugs := debugs w4 @ [(''Global config: %s'', [g])]\<rparr>"
  using assms
  by (auto simp: load_global_cfg_body_def seq_Inr call_load_global_config_def logger_debug_def ret_def)

lemma body_reach:
  assumes "collect_paths cfg w = (Inr paths, w1)"
    and "load_global_config E paths = Inr loaded"
  shows "load_global_cfg_body E cfg w =
     seq (format_variables E loaded) (\<lambda>formatted.
     seq (resolve_strict E cfg formatted) (\<lambda>with_strict.
     seq (resolve_backends cfg with_strict) (\<lambda>global_cfg.
     seq (logger_debug ''Global config: %s'' [global_cfg]) (\<lambda>_.
     ret global_cfg)))) (w1\<lparr>loads := loads w1 @ [paths]\<rparr>)"
  using assms
  by (simp add: load_global_cfg_body_def seq_def call_load_global_config_def)

lemma format_variables_absent:
  assumes "map_of d ''variables'' = None"
  shows "format_variables E (PDict i d) w =
    (Inr (PDict i d), w\<lparr>debugs := debugs w @ [(''Nothing to format in global config files'', [])]\<rparr>)"
  using assms by (simp add: format_variables_def action_defs)

lemma format_variables_present:
  assumes "map_of d ''variables'' = Some v"
    and "Box E (PDict (next_id w + 2) [(''tavern'', PDict (next_id w + 1)
            [(''env_vars'', PDict (next_id w) (map (\<lambda>(k, v). (k, PStr v)) (environ E)))])]) = Inr box"
    and "format_keys E v box = Inr v'"
  shows "format_variables E (PDict i d) w =
    (Inr (PDict i (AList.update ''variables'' v' d)),
     w\<lparr>next_id := next_id w + 3, formats := formats w @ [(v, box)]\<rparr>)"
  using assms by (simp add: format_variables_def action_defs)

lemma format_variables_Inr:
  assumes "format_variables E g w = (Inr g', w')"
  shows "\<exists>i d. g = PDict i d \<and>
     (case map_of d ''variables'' of
        None \<Rightarrow> g' = g \<and> formats w' = formats w
           \<and> debugs w' = debugs w @ [(''Nothing to format in global config files'', [])]
      | Some v \<Rightarrow> \<exists>box v'.
          Box E (PDict (next_id w + 2) [(''tavern'', PDict (next_id w + 1)
            [(''env_vars'', PDict (next_id w) (map (\<lambda>(k, v). (k, PStr v)) (environ E)))])]) = Inr box
          \<and> format_keys E v box = Inr v'
          \<and> g' = PDict i (AList.update ''variables'' v' d)
          \<and> formats w' = formats w @ [(v, box)] \<and> debugs w' = debugs w)"
proof (cases g)
  case (PDict i d)
  show ?thesis
  proof (cases "map_of d ''variables''")
    case None
    then show ?thesis using assms PDict format_variables_absent [OF None, of E i w] by auto
  next
    case (Some v)
    then show ?thesis using assms PDict
      by (auto simp: format_variables_def action_defs split: sum.splits)
  qed
qed (use assms in \<open>simp_all add: format_variables_def action_defs\<close>)

lemma resolve_strict_list:
  assumes "get_option_generic cfg ''tavern-strict'' (PList (next_id w) []) (w\<lparr>next_id := Suc (next_id w)\<rparr>)
        = (Inr (PList j items), w1)"
  shows "resolve_strict E cfg (PDict i d) w =
     (if set items \<subseteq> set valid_keys
      then (Inr (PDict i (AList.update ''strict'' (PList j items) d)), w1\<lparr>next_id := Suc (next_id w1)\<rparr>)
      else (Inl (InvalidConfigurationException
              (strict_msg E (PList (next_id w1) valid_keys) (PList j items))),
            w1\<lparr>next_id := Suc (next_id w1)\<rparr>))"
  using assms
  by (auto simp: resolve_strict_def seq_def new_list_def lift_def ret_def raise_def
        list_ex_iff py_in_valid_keys)

lemma resolve_strict_other:
  assumes "get_option_generic cfg ''tavern-strict'' (PList (next_id w) []) (w\<lparr>next_id := Suc (next_id w)\<rparr>)
        = (Inr strict, w1)" and "\<And>j items. strict \<noteq> PList j items"
  shows "resolve_strict E cfg (PDict i d) w =
     (Inr (PDict i (AList.update ''strict'' strict d)), w1)"
  using assms
  by (cases strict) (auto simp: resolve_strict_def seq_def new_list_def lift_def ret_def)

lemma resolve_strict_Inr:
  assumes run: "resolve_strict E cfg g w = (Inr g', w')"
  shows "\<exists>i d strict w1. g = PDict i d
    \<and> get_option_generic cfg ''tavern-strict'' (PList (next_id w) []) (w\<lparr>next_id := Suc (next_id w)\<rparr>)
        = (Inr strict, w1)
    \<and> g' = PDict i (AList.update ''strict'' strict d)
    \<and> (\<forall>j items. strict = PList j items \<longrightarrow> set items \<subseteq> set valid_keys)"
proof -
  obtain r w1 where g: "get_option_generic cfg ''tavern-strict'' (PList (next_id w) [])
      (w\<lparr>next_id := Suc (next_id w)\<rparr>) = (r, w1)"
    by (cases "get_option_generic cfg ''tavern-strict'' (PList (next_id w) [])
      (w\<lparr>next_id := Suc (next_id w)\<rparr>)") 
  have "\<exists>strict. r = Inr strict"
    using run g by (cases r) (simp_all add: resolve_strict_def seq_def new_list_def)
  then obtain strict where r: "r = Inr strict" by blast
  have dict: "\<exists>i d. g = PDict i d"
  proof (cases g)
    case (PDict i d) then show ?thesis by simp
  qed (use run g r in \<open>auto simp: resolve_strict_def seq_def new_list_def lift_def ret_def raise_def
         split: pyval.splits if_splits prod.splits sum.splits\<close>)
  then obtain i d where gd: "g = PDict i d" by blast
  show ?thesis
  proof (cases "\<exists>j items. strict = PList j items")
    case True
    then obtain j items where s: "strict = PList j items" by blast
    from resolve_strict_list [OF g [unfolded r s], of E i d] run gd
    show ?thesis using g r s by (auto split: if_splits)
  next
    case False
    then have "\<And>j items. strict \<noteq> PList j items" by blast
    from resolve_strict_other [OF g [unfolded r] this, of E i d] run gd
    show ?thesis using g r False by auto
  qed
qed

lemma resolve_backends_result:
  assumes "getini cfg ''tavern-http-backend'' = Inr ih"
    and "getoption cfg ''tavern_http_backend'' = Inr ch"
    and "getini cfg ''tavern-mqtt-backend'' = Inr im"
    and "getoption cfg ''tavern_mqtt_backend'' = Inr cm"
  shows "resolve_backends cfg (PDict i d) w =
    (Inr (PDict i (AList.update ''backends''
        (PDict (next_id w)
           [(''http'', if truthy ch \<and> \<not> py_eq ch ih then ch else ih),
            (''mqtt'', if truthy cm \<and> \<not> py_eq cm im then cm else im)]) d)),
     w\<lparr>next_id := next_id w + 2,
       queries := queries w @ [GetIni ''tavern-http-backend'', GetOption ''tavern_http_backend'',
         GetIni ''tavern-mqtt-backend'', GetOption ''tavern_mqtt_backend'']\<rparr>)"
  using assms
  by (simp add: resolve_backends_def action_defs update_conv')

lemma backends_loop_Cons_Inr:
  assumes "backends_loop cfg (b # bs) g w = (Inr g', w')"
  shows "\<exists>ini_opt cli_opt. getini cfg (''tavern-'' @ b @ ''-backend'') = Inr ini_opt
     \<and> getoption cfg (''tavern_'' @ b @ ''_backend'') = Inr cli_opt"
  using assms
  by (auto simp: seq_Inr call_getini_def call_getoption_def)

lemma resolve_backends_Inr:
  assumes run: "resolve_backends cfg g w = (Inr g', w')"
  shows "\<exists>i d ih ch im cm. g = PDict i d
    \<and> getini cfg ''tavern-http-backend'' = Inr ih
    \<and> getoption cfg ''tavern_http_backend'' = Inr ch
    \<and> getini cfg ''tavern-mqtt-backend'' = Inr im
    \<and> getoption cfg ''tavern_mqtt_backend'' = Inr cm
    \<and> g' = PDict i (AList.update ''backends''
        (PDict (next_id w)
           [(''http'', if truthy ch \<and> \<not> py_eq ch ih then ch else ih),
            (''mqtt'', if truthy cm \<and> \<not> py_eq cm im then cm else im)]) d)"
proof -
  have "\<exists>i d. g = PDict i d"
    using run by (cases g) (simp_all add: resolve_backends_def seq_def new_dict_def lift_def)
  then obtain i d where gd: "g = PDict i d" by blast
  have "\<exists>ih ch im cm. getini cfg ''tavern-http-backend'' = Inr ih
     \<and> getoption cfg ''tavern_http_backend'' = Inr ch
     \<and> getini cfg ''tavern-mqtt-backend'' = Inr im
     \<and> getoption cfg ''tavern_mqtt_backend'' = Inr cm"
    using run gd
    by (auto simp: resolve_backends_def seq_Inr call_getini_def call_getoption_def)
  then obtain ih ch im cm where h: "getini cfg ''tavern-http-backend'' = Inr ih"
     "getoption cfg ''tavern_http_backend'' = Inr ch"
    and m: "getini cfg ''tavern-mqtt-backend'' = Inr im"
     "getoption cfg ''tavern_mqtt_backend'' = Inr cm" by blast
  from resolve_backends_result [OF h m, of i d w] run gd
  show ?thesis using h m by auto
qed

lemma from_strict_frame:
  assumes q: "\<And>w q. F (w\<lparr>queries := q\<rparr>) = F w" and n: "\<And>w n. F (w\<lparr>next_id := n\<rparr>) = F w"
    and d: "\<And>w n. F (w\<lparr>debugs := n\<rparr>) = F w"
  shows "F (snd (from_strict E cfg g w)) = F w"
  apply (rule frame_seq, rule resolve_strict_frame, rule q, rule n)
  apply (rule frame_seq, rule resolve_backends_frame, rule q, rule n)
  apply (rule frame_seq, simp add: logger_debug_def d)
  apply (simp add: ret_def)
  done

lemma from_format_frame:
  assumes q: "\<And>w q. F (w\<lparr>queries := q\<rparr>) = F w" and n: "\<And>w n. F (w\<lparr>next_id := n\<rparr>) = F w"
    and d: "\<And>w n. F (w\<lparr>debugs := n\<rparr>) = F w" and f: "\<And>w n. F (w\<lparr>formats := n\<rparr>) = F w"
  shows "F (snd (seq (format_variables E loaded) (\<lambda>formatted. from_strict E cfg formatted) w)) = F w"
  apply (rule frame_seq, rule format_variables_frame, rule f, rule n, rule d)
  apply (rule from_strict_frame, rule q, rule n, rule d)
  done

lemma body_loads:
  assumes "collect_paths cfg w = (Inr paths, w1)"
  shows "loads (snd (load_global_cfg_body E cfg w)) = loads w @ [paths]"
proof -
  have w1: "loads w1 = loads w"
    using collect_paths_frame [of loads cfg w] assms by simp
  show ?thesis
  proof (cases "load_global_config E paths")
    case (Inl e)
    then show ?thesis using assms w1
      by (simp add: load_global_cfg_body_def seq_def call_load_global_config_def)
  next
    case (Inr loaded)
    show ?thesis
      unfolding body_reach [OF assms Inr]
      by (simp add: from_format_frame [where F = loads] w1)
  qed
qed

lemma collect_paths_lists:
  assumes "getini cfg ''tavern-global-cfg'' = Inr i"
    and "getoption cfg ''tavern_global_cfg'' = Inr c"
    and "i = PList a ps \<or> (\<not> truthy i \<and> ps = [])"
    and "c = PList b qs \<or> (\<not> truthy c \<and> qs = [])"
  shows "\<exists>n w1. collect_paths cfg w = (Inr (PList n (ps @ qs)), w1)"
proof -
  have i: "\<exists>n w1. or_empty_list i w = (Inr (PList n ps), w1)" for w
    using assms(3) by (cases ps) (auto simp: or_empty_list_def ret_def new_list_def)
  have c: "\<exists>n w1. or_empty_list c w = (Inr (PList n qs), w1)" for w
    using assms(4) by (cases qs) (auto simp: or_empty_list_def ret_def new_list_def)
  obtain n1 w1 where 1: "or_empty_list i (w\<lparr>queries := queries w @ [GetIni ''tavern-global-cfg'']\<rparr>)
      = (Inr (PList n1 ps), w1)" using i by blast
  obtain n2 w2 where 2: "or_empty_list c (w1\<lparr>queries := queries w1 @ [GetOption ''tavern_global_cfg'']\<rparr>)
      = (Inr (PList n2 qs), w2)" using c by blast
  show ?thesis
    using assms(1,2) 1 2
    by (simp add: collect_paths_def seq_def call_getini_def call_getoption_def py_add_def new_list_def)
qed

lemmas run_defs = load_global_cfg_body_def collect_paths_def format_variables_def
  resolve_strict_def resolve_backends_def get_option_generic_def or_empty_list_def py_add_def
  action_defs str_replace_def Let_def valid_keys_def py_in_def strict_msg_def

lemmas example_defs = env_of_def config_of_def world0_def doc_plain_def doc_vars_def

section \<open>The three-tier resolver: precedence and keys\<close>

text \<open>
  C1. For every flag and every default: when the persistent-file store answers the
  query with a value other than None (an empty list or False included), that value is
  returned; when it answers None and the command-line store answers with a value other
  than None, that one is returned; when both answer None, the result is the default the
  caller passed, the same object (an empty list keeps its identity).
\<close>

theorem get_option_generic_precedence:
  "(\<forall>v. getini cfg (str_replace flag (CHR ''-'') (CHR ''_'')) = Inr v \<and> v \<noteq> PNone
        \<longrightarrow> fst (get_option_generic cfg flag dflt w) = Inr v)
   \<and> (\<forall>c. getini cfg (str_replace flag (CHR ''-'') (CHR ''_'')) = Inr PNone
          \<and> getoption cfg flag = Inr c \<and> c \<noteq> PNone
        \<longrightarrow> fst (get_option_generic cfg flag dflt w) = Inr c)
   \<and> (getini cfg (str_replace flag (CHR ''-'') (CHR ''_'')) = Inr PNone
          \<and> getoption cfg flag = Inr PNone
        \<longrightarrow> fst (get_option_generic cfg flag dflt w) = Inr dflt)"
  by (simp add: get_option_generic_def Let_def seq_def call_getini_def call_getoption_def ret_def)

theorem get_option_generic_precedence_witness:
  "fst (get_option_generic
          (config_of 1 [(''tavern_strict'', PList 7 [])] [(''tavern-strict'', PList 8 [PStr ''body''])])
          ''tavern-strict'' (PList 9 []) world0) = Inr (PList 7 [])
   \<and> fst (get_option_generic (config_of 1 [] [(''tavern-strict'', PBool False)])
          ''tavern-strict'' (PList 9 []) world0) = Inr (PBool False)
   \<and> fst (get_option_generic (config_of 1 [] []) ''tavern-strict'' (PBool False) world0)
        = Inr (PBool False)
   \<and> fst (get_option_generic (config_of 1 [] []) ''tavern-strict'' (PList 9 []) world0)
        = Inr (PList 9 [])"
  using
    get_option_generic_precedence [of
      "config_of 1 [(''tavern_strict'', PList 7 [])] [(''tavern-strict'', PList 8 [PStr ''body''])]"
      "''tavern-strict''" "PList 9 []" world0]
    get_option_generic_precedence [of "config_of 1 [] [(''tavern-strict'', PBool False)]"
      "''tavern-strict''" "PList 9 []" world0]
    get_option_generic_precedence [of "config_of 1 [] []" "''tavern-strict''" "PBool False" world0]
    get_option_generic_precedence [of "config_of 1 [] []" "''tavern-strict''" "PList 9 []" world0]
  by (simp add: config_of_def str_replace_def)



section \<open>Option registration: the defaults of the backends\<close>

text \<open>
  C7. With a callback that accepts every registration, the registrations made with
  \<^verbatim>\<open>with_defaults\<close> true give \<^verbatim>\<open>--tavern-http-backend\<close> the default
  \<^verbatim>\<open>requests\<close> and \<^verbatim>\<open>--tavern-mqtt-backend\<close> the default
  \<^verbatim>\<open>paho-mqtt\<close>; with \<^verbatim>\<open>with_defaults\<close> false both defaults are None; and
  the registrations of the two cases differ in nothing but the defaults of these two
  options.
\<close>

theorem add_parser_options_defaults:
  assumes ok: "\<And>name kwargs. \<exists>r. parser_addoption name kwargs = Inr r"
  shows "\<exists>on off.
      addoptions (snd (add_parser_options parser_addoption True w)) = addoptions w @ on
    \<and> addoptions (snd (add_parser_options parser_addoption False w)) = addoptions w @ off
    \<and> (\<exists>kw. map_of on ''--tavern-http-backend'' = Some kw
           \<and> map_of kw ''default'' = Some (PStr ''requests''))
    \<and> (\<exists>kw. map_of on ''--tavern-mqtt-backend'' = Some kw
           \<and> map_of kw ''default'' = Some (PStr ''paho-mqtt''))
    \<and> (\<exists>kw. map_of off ''--tavern-http-backend'' = Some kw \<and> map_of kw ''default'' = Some PNone)
    \<and> (\<exists>kw. map_of off ''--tavern-mqtt-backend'' = Some kw \<and> map_of kw ''default'' = Some PNone)
    \<and> off = map (\<lambda>(name, kw).
          if name \<in> {''--tavern-http-backend'', ''--tavern-mqtt-backend''}
          then (name, AList.update ''default'' PNone kw) else (name, kw)) on"
proof -
  obtain r where r: "\<And>name kwargs. parser_addoption name kwargs = Inr (r name kwargs)"
    using ok by metis
  show ?thesis
    by (simp add: add_parser_options_def seq_def call_addoption_def new_list_def ret_def r)
qed

theorem add_parser_options_defaults_witness:
  "(\<exists>on off.
      addoptions (snd (add_parser_options (\<lambda>name kwargs. Inr PNone) True world0))
        = addoptions world0 @ on
    \<and> addoptions (snd (add_parser_options (\<lambda>name kwargs. Inr PNone) False world0))
        = addoptions world0 @ off
    \<and> (\<exists>kw. map_of on ''--tavern-http-backend'' = Some kw
           \<and> map_of kw ''default'' = Some (PStr ''requests''))
    \<and> (\<exists>kw. map_of on ''--tavern-mqtt-backend'' = Some kw
           \<and> map_of kw ''default'' = Some (PStr ''paho-mqtt''))
    \<and> (\<exists>kw. map_of off ''--tavern-http-backend'' = Some kw \<and> map_of kw ''default'' = Some PNone)
    \<and> (\<exists>kw. map_of off ''--tavern-mqtt-backend'' = Some kw \<and> map_of kw ''default'' = Some PNone)
    \<and> off = map (\<lambda>(name, kw).
          if name \<in> {''--tavern-http-backend'', ''--tavern-mqtt-backend''}
          then (name, AList.update ''default'' PNone kw) else (name, kw)) on)
   \<and> map fst (addoptions (snd (add_parser_options (\<lambda>name kwargs. Inr PNone) True world0)))
      = [''--tavern-global-cfg'', ''--tavern-http-backend'', ''--tavern-mqtt-backend'',
         ''--tavern-strict'', ''--tavern-beta-new-traceback'', ''--tavern-file-path-regex'']"
proof -
  have ok: "\<And>name kwargs. \<exists>r. (\<lambda>name kwargs. Inr PNone :: exn + pyval) name kwargs = Inr r"
    by simp
  have "map fst (addoptions (snd (add_parser_options (\<lambda>name kwargs. Inr PNone) True world0)))
      = [''--tavern-global-cfg'', ''--tavern-http-backend'', ''--tavern-mqtt-backend'',
         ''--tavern-strict'', ''--tavern-beta-new-traceback'', ''--tavern-file-path-regex'']"
    by (simp add: add_parser_options_def seq_def call_addoption_def new_list_def ret_def world0_def)
  with add_parser_options_defaults [of "\<lambda>name kwargs. Inr PNone" world0, OF ok]
  show ?thesis by blast
qed

section \<open>The loader: paths, document, variables, strict and backends\<close>

text \<open>
  C6. When the persistent-file store answers \<^verbatim>\<open>tavern-global-cfg\<close> with a list
  (or with nothing, or any false value, which counts as the empty list) and the
  command-line store answers \<^verbatim>\<open>tavern_global_cfg\<close> likewise, the loader is called
  exactly once in the run, with a list that holds the persistent-file paths followed by
  the command-line paths.
\<close>

theorem load_global_cfg_all_paths:
  assumes "getini cfg ''tavern-global-cfg'' = Inr i"
    and "getoption cfg ''tavern_global_cfg'' = Inr c"
    and "i = PList a ps \<or> (\<not> truthy i \<and> ps = [])"
    and "c = PList b qs \<or> (\<not> truthy c \<and> qs = [])"
  shows "\<exists>n. loads (snd (load_global_cfg_body E cfg w)) = loads w @ [PList n (ps @ qs)]"
proof -
  from collect_paths_lists [OF assms]
  obtain n w1 where "collect_paths cfg w = (Inr (PList n (ps @ qs)), w1)" by blast
  from body_loads [OF this] show ?thesis by blast
qed

theorem load_global_cfg_all_paths_witness:
  "(\<exists>n. loads (snd (load_global_cfg_body (env_of doc_plain)
        (config_of 1 [(''tavern-global-cfg'', PList 60 [PStr ''a.yaml''])]
                     [(''tavern_global_cfg'', PList 61 [PStr ''b.yaml''])]) world0))
      = loads world0 @ [PList n ([PStr ''a.yaml''] @ [PStr ''b.yaml''])])
   \<and> (\<exists>n. loads (snd (load_global_cfg_body (env_of doc_plain)
        (config_of 1 [(''tavern-global-cfg'', PList 60 [PStr ''a.yaml''])] []) world0))
      = loads world0 @ [PList n ([PStr ''a.yaml''] @ [])])"
  using
    load_global_cfg_all_paths [of
      "config_of 1 [(''tavern-global-cfg'', PList 60 [PStr ''a.yaml''])]
                   [(''tavern_global_cfg'', PList 61 [PStr ''b.yaml''])]"
      "PList 60 [PStr ''a.yaml'']" "PList 61 [PStr ''b.yaml'']" 60 "[PStr ''a.yaml'']"
      61 "[PStr ''b.yaml'']" "env_of doc_plain" world0]
    load_global_cfg_all_paths [of
      "config_of 1 [(''tavern-global-cfg'', PList 60 [PStr ''a.yaml''])] []"
      "PList 60 [PStr ''a.yaml'']" PNone 60 "[PStr ''a.yaml'']"
      0 "[]" "env_of doc_plain" world0]
  by (simp add: config_of_def)

text \<open>
  C8. When the function returns, the settings object is the dictionary that the loader
  produced (the same object), and every key other than \<^verbatim>\<open>variables\<close>,
  \<^verbatim>\<open>strict\<close> and \<^verbatim>\<open>backends\<close> maps to what it mapped to in the loaded
  document.
\<close>

theorem load_global_cfg_other_keys:
  assumes "load_global_cfg_body E cfg w = (Inr g, w')"
  shows "\<exists>paths i d d'. loads w' = loads w @ [paths]
     \<and> load_global_config E paths = Inr (PDict i d)
     \<and> g = PDict i d'
     \<and> (\<forall>k. k \<notin> {''variables'', ''strict'', ''backends''} \<longrightarrow> map_of d' k = map_of d k)"
proof -
  from body_Inr [OF assms]
  obtain paths w1 loaded formatted w2 with_strict w3 w4 where
      cp: "collect_paths cfg w = (Inr paths, w1)"
    and ld: "load_global_config E paths = Inr loaded"
    and fv: "format_variables E loaded (w1\<lparr>loads := loads w1 @ [paths]\<rparr>) = (Inr formatted, w2)"
    and rs: "resolve_strict E cfg formatted w2 = (Inr with_strict, w3)"
    and rb: "resolve_backends cfg with_strict w3 = (Inr g, w4)"
    and w': "w' = w4\<lparr>debugs := debugs w4 @ [(''Global config: %s'', [g])]\<rparr>"
    by blast
  have "\<exists>i d. loaded = PDict i d
      \<and> (formatted = PDict i d \<or> (\<exists>v'. formatted = PDict i (AList.update ''variables'' v' d)))"
    using format_variables_Inr [OF fv] by (fastforce split: option.splits)
  then obtain i d where
      l: "loaded = PDict i d"
    and f: "formatted = PDict i d \<or> (\<exists>v'. formatted = PDict i (AList.update ''variables'' v' d))"
    by blast
  from resolve_strict_Inr [OF rs] f obtain d2 strict where
      s: "formatted = PDict i d2" "with_strict = PDict i (AList.update ''strict'' strict d2)"
    by auto
  from resolve_backends_Inr [OF rb] s obtain bk where
      b: "g = PDict i (AList.update ''backends'' bk (AList.update ''strict'' strict d2))"
    by auto
  have "loads w' = loads w @ [paths]"
    using body_loads [OF cp, of E] assms by simp
  moreover have "\<forall>k. k \<notin> {''variables'', ''strict'', ''backends''}
      \<longrightarrow> map_of (AList.update ''backends'' bk (AList.update ''strict'' strict d2)) k = map_of d k"
    using f s(1) by (auto simp: update_conv')
  ultimately show ?thesis using ld l b by blast
qed

theorem load_global_cfg_other_keys_witness:
  "\<exists>i d'. fst (load_global_cfg_body (env_of doc_vars)
        (config_of 1 [(''tavern-http-backend'', PStr ''requests'')] []) world0) = Inr (PDict i d')
     \<and> map_of d' ''name'' = Some (PStr ''demo'')"
proof -
  have "\<exists>g w'. load_global_cfg_body (env_of doc_vars)
        (config_of 1 [(''tavern-http-backend'', PStr ''requests'')] []) world0 = (Inr g, w')"
    by (simp add: run_defs example_defs)
  then obtain g w' where run: "load_global_cfg_body (env_of doc_vars)
        (config_of 1 [(''tavern-http-backend'', PStr ''requests'')] []) world0 = (Inr g, w')"
    by blast
  from load_global_cfg_other_keys [OF run]
  obtain paths i d d' where
      l: "load_global_config (env_of doc_vars) paths = Inr (PDict i d)" and g: "g = PDict i d'"
      and k: "\<forall>k. k \<notin> {''variables'', ''strict'', ''backends''} \<longrightarrow> map_of d' k = map_of d k"
    by blast
  from l have "d = [(''name'', PStr ''demo''),
     (''variables'', PDict 101 [(''host'', PStr ''{tavern.env_vars.HOST}'')])]"
    by (simp add: env_of_def doc_vars_def)
  then have "map_of d ''name'' = Some (PStr ''demo'')" by simp
  moreover from k [rule_format, of "''name''"] have "map_of d' ''name'' = map_of d ''name''"
    by simp
  ultimately show ?thesis using run g by simp
qed

text \<open>
  What the rest of the function does to the debug log and to the document.
\<close>

lemma from_backends_debugs:
  "\<exists>more. debugs (snd (from_backends cfg g w)) = debugs w @ more"
proof (cases "resolve_backends cfg g w")
  case (Pair r w1)
  have "debugs w1 = debugs w"
    using resolve_backends_frame [of debugs cfg g w] Pair by simp
  then show ?thesis using Pair
    by (cases r) (simp_all add: seq_def logger_debug_def ret_def)
qed

lemma from_strict_debugs:
  "\<exists>more. debugs (snd (from_strict E cfg g w)) = debugs w @ more"
proof (cases "resolve_strict E cfg g w")
  case (Pair r w1)
  have w1: "debugs w1 = debugs w"
    using resolve_strict_frame [of debugs E cfg g w] Pair by simp
  show ?thesis
  proof (cases r)
    case (Inl e)
    then show ?thesis using Pair w1 by (simp add: seq_def)
  next
    case (Inr x)
    then show ?thesis using Pair w1 from_backends_debugs [of cfg x w1] by (simp add: seq_def)
  qed
qed

lemma from_strict_Inr:
  assumes "from_strict E cfg (PDict i d) w = (Inr g, w')"
  shows "\<exists>strict bk. g = PDict i (AList.update ''backends'' bk (AList.update ''strict'' strict d))"
proof -
  from assms obtain ws w1 w2 where
      rs: "resolve_strict E cfg (PDict i d) w = (Inr ws, w1)"
    and rb: "resolve_backends cfg ws w1 = (Inr g, w2)"
    by (auto simp: seq_Inr logger_debug_def ret_def)
  from resolve_strict_Inr [OF rs] obtain strict where
      "ws = PDict i (AList.update ''strict'' strict d)" by auto
  with resolve_backends_Inr [OF rb] show ?thesis by auto
qed

text \<open>
  C5. Let the paths be collected and let the loader return a dictionary. If the
  dictionary has no key \<^verbatim>\<open>variables\<close>, nothing is raised for it: the run goes on at
  line 93 with the unchanged document, with the message
  \<^verbatim>\<open>Nothing to format in global config files\<close> logged at debug level, and the
  formatter is not called by then nor at any later point of the run. If the key is there
  and the formatter, applied to its value and to the context made of
  \<^verbatim>\<open>{"tavern": {"env_vars": dict(os.environ)}}\<close>, returns a value, the run goes on
  with that value under \<^verbatim>\<open>variables\<close>, and it is still there in the settings
  object that the function returns.
\<close>

theorem load_global_cfg_variables:
  assumes cp: "collect_paths cfg w = (Inr paths, w1)"
    and ld: "load_global_config E paths = Inr (PDict i d)"
  shows
   "(map_of d ''variables'' = None \<longrightarrow>
       load_global_cfg_body E cfg w =
         from_strict E cfg (PDict i d)
           (w1\<lparr>loads := loads w1 @ [paths],
               debugs := debugs w1 @ [(''Nothing to format in global config files'', [])]\<rparr>)
     \<and> formats (snd (load_global_cfg_body E cfg w)) = formats w
     \<and> (''Nothing to format in global config files'', [])
          \<in> set (debugs (snd (load_global_cfg_body E cfg w))))
    \<and> (\<forall>v box v'. map_of d ''variables'' = Some v
         \<and> Box E (PDict (next_id w1 + 2) [(''tavern'', PDict (next_id w1 + 1)
               [(''env_vars'', PDict (next_id w1) (map (\<lambda>(k, x). (k, PStr x)) (environ E)))])])
             = Inr box
         \<and> format_keys E v box = Inr v'
       \<longrightarrow> load_global_cfg_body E cfg w =
             from_strict E cfg (PDict i (AList.update ''variables'' v' d))
               (w1\<lparr>next_id := next_id w1 + 3, loads := loads w1 @ [paths],
                   formats := formats w1 @ [(v, box)]\<rparr>)
         \<and> (\<forall>g w'. load_global_cfg_body E cfg w = (Inr g, w')
               \<longrightarrow> (\<exists>d'. g = PDict i d' \<and> map_of d' ''variables'' = Some v')))"
proof (intro conjI impI allI)
  assume none: "map_of d ''variables'' = None"
  show eq: "load_global_cfg_body E cfg w =
         from_strict E cfg (PDict i d)
           (w1\<lparr>loads := loads w1 @ [paths],
               debugs := debugs w1 @ [(''Nothing to format in global config files'', [])]\<rparr>)"
    unfolding body_reach [OF cp ld]
    by (simp add: seq_def format_variables_absent [OF none])
  have "formats w1 = formats w"
    using collect_paths_frame [of formats cfg w] cp by simp
  then show "formats (snd (load_global_cfg_body E cfg w)) = formats w"
    unfolding eq by (simp add: from_strict_frame [where F = formats])
  show "(''Nothing to format in global config files'', [])
          \<in> set (debugs (snd (load_global_cfg_body E cfg w)))"
    unfolding eq
    using from_strict_debugs [of E cfg "PDict i d"
        "w1\<lparr>loads := loads w1 @ [paths],
            debugs := debugs w1 @ [(''Nothing to format in global config files'', [])]\<rparr>"]
    by auto
next
  fix v box v'
  assume h: "map_of d ''variables'' = Some v
         \<and> Box E (PDict (next_id w1 + 2) [(''tavern'', PDict (next_id w1 + 1)
               [(''env_vars'', PDict (next_id w1) (map (\<lambda>(k, x). (k, PStr x)) (environ E)))])])
             = Inr box
         \<and> format_keys E v box = Inr v'"
  have fv: "format_variables E (PDict i d) (w1\<lparr>loads := loads w1 @ [paths]\<rparr>) =
      (Inr (PDict i (AList.update ''variables'' v' d)),
       w1\<lparr>next_id := next_id w1 + 3, loads := loads w1 @ [paths],
          formats := formats w1 @ [(v, box)]\<rparr>)"
    using h format_variables_present [of d v E "w1\<lparr>loads := loads w1 @ [paths]\<rparr>" box v' i]
    by simp
  show eq: "load_global_cfg_body E cfg w =
             from_strict E cfg (PDict i (AList.update ''variables'' v' d))
               (w1\<lparr>next_id := next_id w1 + 3, loads := loads w1 @ [paths],
                   formats := formats w1 @ [(v, box)]\<rparr>)"
    unfolding body_reach [OF cp ld] by (simp add: seq_def fv)
  fix g w'
  assume "load_global_cfg_body E cfg w = (Inr g, w')"
  with eq have "from_strict E cfg (PDict i (AList.update ''variables'' v' d))
               (w1\<lparr>next_id := next_id w1 + 3, loads := loads w1 @ [paths],
                   formats := formats w1 @ [(v, box)]\<rparr>) = (Inr g, w')" by simp
  from from_strict_Inr [OF this]
  show "\<exists>d'. g = PDict i d' \<and> map_of d' ''variables'' = Some v'"
    by (auto simp: update_conv')
qed

theorem load_global_cfg_variables_witness:
  "formats (snd (load_global_cfg_body (env_of doc_plain) (config_of 1 [] []) world0)) = []
   \<and> (''Nothing to format in global config files'', [])
        \<in> set (debugs (snd (load_global_cfg_body (env_of doc_plain) (config_of 1 [] []) world0)))
   \<and> (\<exists>d'. fst (load_global_cfg_body (env_of doc_vars) (config_of 1 [] []) world0)
          = Inr (PDict 100 d')
        \<and> map_of d' ''variables'' = Some (PDict 102 [(''host'', PStr ''localhost'')]))"
proof -
  have cp: "collect_paths (config_of 1 [] []) world0 =
      (Inr (PList 2 []),
       world0\<lparr>next_id := 3,
         queries := [GetIni ''tavern-global-cfg'', GetOption ''tavern_global_cfg'']\<rparr>)"
    by (simp add: collect_paths_def or_empty_list_def py_add_def action_defs example_defs)
  have plain: "load_global_config (env_of doc_plain) (PList 2 []) = Inr (PDict 100 [(''name'', PStr ''demo'')])"
    by (simp add: example_defs)
  have vars: "load_global_config (env_of doc_vars) (PList 2 []) = Inr (PDict 100 [(''name'', PStr ''demo''),
     (''variables'', PDict 101 [(''host'', PStr ''{tavern.env_vars.HOST}'')])])"
    by (simp add: example_defs)
  have run: "\<exists>g w'. load_global_cfg_body (env_of doc_vars) (config_of 1 [] []) world0 = (Inr g, w')"
    by (simp add: run_defs example_defs)
  have absent: "map_of [(''name'', PStr ''demo'')] ''variables'' = None" by simp
  have present: "map_of [(''name'', PStr ''demo''),
     (''variables'', PDict 101 [(''host'', PStr ''{tavern.env_vars.HOST}'')])] ''variables''
      = Some (PDict 101 [(''host'', PStr ''{tavern.env_vars.HOST}'')])" by simp
  have f0: "formats world0 = []" by (simp add: world0_def)
  from load_global_cfg_variables [OF cp plain] absent
  have "formats (snd (load_global_cfg_body (env_of doc_plain) (config_of 1 [] []) world0))
      = formats world0
   \<and> (''Nothing to format in global config files'', [])
        \<in> set (debugs (snd (load_global_cfg_body (env_of doc_plain) (config_of 1 [] []) world0)))"
    by blast
  then have 1: "formats (snd (load_global_cfg_body (env_of doc_plain) (config_of 1 [] []) world0)) = []
   \<and> (''Nothing to format in global config files'', [])
        \<in> set (debugs (snd (load_global_cfg_body (env_of doc_plain) (config_of 1 [] []) world0)))"
    using f0 by simp
  obtain g w' where run: "load_global_cfg_body (env_of doc_vars) (config_of 1 [] []) world0 = (Inr g, w')"
    using run by blast
  have box: "Box (env_of doc_vars)
      (PDict (next_id (world0\<lparr>next_id := 3,
         queries := [GetIni ''tavern-global-cfg'', GetOption ''tavern_global_cfg'']\<rparr>) + 2)
        [(''tavern'', PDict (next_id (world0\<lparr>next_id := 3,
         queries := [GetIni ''tavern-global-cfg'', GetOption ''tavern_global_cfg'']\<rparr>) + 1)
          [(''env_vars'', PDict (next_id (world0\<lparr>next_id := 3,
         queries := [GetIni ''tavern-global-cfg'', GetOption ''tavern_global_cfg'']\<rparr>))
             (map (\<lambda>(k, x). (k, PStr x)) (environ (env_of doc_vars))))])])
      = Inr (PDict 103 [(''tavern'', PDict 4 [(''env_vars'', PDict 3 [(''HOST'', PStr ''localhost'')])])])"
    by (simp add: env_of_def)
  have fk: "format_keys (env_of doc_vars) (PDict 101 [(''host'', PStr ''{tavern.env_vars.HOST}'')])
      (PDict 103 [(''tavern'', PDict 4 [(''env_vars'', PDict 3 [(''HOST'', PStr ''localhost'')])])])
      = Inr (PDict 102 [(''host'', PStr ''localhost'')])"
    by (simp add: env_of_def)
  from load_global_cfg_variables [OF cp vars] present box fk run
  have "\<exists>d'. g = PDict 100 d'
        \<and> map_of d' ''variables'' = Some (PDict 102 [(''host'', PStr ''localhost'')])"
    by blast
  with run have 2: "\<exists>d'. fst (load_global_cfg_body (env_of doc_vars) (config_of 1 [] []) world0)
          = Inr (PDict 100 d')
        \<and> map_of d' ''variables'' = Some (PDict 102 [(''host'', PStr ''localhost'')])"
    by simp
  from 1 2 show ?thesis by blast
qed

lemma from_backends_Inr:
  assumes "from_backends cfg (PDict i d) w = (Inr g, w')"
  shows "\<exists>bk. g = PDict i (AList.update ''backends'' bk d)"
proof -
  from assms obtain w2 where rb: "resolve_backends cfg (PDict i d) w = (Inr g, w2)"
    by (auto simp: seq_Inr logger_debug_def ret_def)
  from resolve_backends_Inr [OF rb] show ?thesis by auto
qed

text \<open>
  C2, as the code has it. A strict list holding \<^verbatim>\<open>redirect-query-params\<close>, spelled
  with hyphens, is refused, and one holding \<^verbatim>\<open>redirect_query_params\<close> is accepted:
  the third allowed value is spelled with underscores.

  Let the run reach line 93 with a dictionary, and let the resolver, called for
  \<^verbatim>\<open>tavern-strict\<close> with a new empty list as the default, return a list. If every
  item of the list is one of \<^verbatim>\<open>body\<close>, \<^verbatim>\<open>headers\<close> and
  \<^verbatim>\<open>redirect_query_params\<close>, nothing is raised: the run goes on at line 105 with the
  list stored under \<^verbatim>\<open>strict\<close>, and it is still there in the settings object that
  the function returns. Otherwise the function raises InvalidConfigurationException, and
  the message holds the rendering of the list of the three allowed values and the
  rendering of the whole list that was resolved.
\<close>

theorem load_global_cfg_strict:
  assumes cp: "collect_paths cfg w = (Inr paths, w1)"
    and ld: "load_global_config E paths = Inr loaded"
    and fv: "format_variables E loaded (w1\<lparr>loads := loads w1 @ [paths]\<rparr>) = (Inr (PDict i d), w2)"
    and st: "get_option_generic cfg ''tavern-strict'' (PList (next_id w2) [])
               (w2\<lparr>next_id := Suc (next_id w2)\<rparr>) = (Inr (PList j items), w3)"
  shows
   "(set items \<subseteq> {PStr ''body'', PStr ''headers'', PStr ''redirect_query_params''} \<longrightarrow>
       load_global_cfg_body E cfg w =
         from_backends cfg (PDict i (AList.update ''strict'' (PList j items) d))
           (w3\<lparr>next_id := Suc (next_id w3)\<rparr>)
     \<and> (\<forall>g w'. load_global_cfg_body E cfg w = (Inr g, w')
           \<longrightarrow> (\<exists>d'. g = PDict i d' \<and> map_of d' ''strict'' = Some (PList j items))))
    \<and> (\<not> set items \<subseteq> {PStr ''body'', PStr ''headers'', PStr ''redirect_query_params''} \<longrightarrow>
       load_global_cfg_body E cfg w =
         (Inl (InvalidConfigurationException
            (''Invalid values for 'strict' given - expected one of ''
              @ render E (PList (next_id w3)
                  [PStr ''body'', PStr ''headers'', PStr ''redirect_query_params''])
              @ '', got '' @ render E (PList j items))),
          w3\<lparr>next_id := Suc (next_id w3)\<rparr>))"
proof -
  have body: "load_global_cfg_body E cfg w = from_strict E cfg (PDict i d) w2"
    unfolding body_reach [OF cp ld] by (simp add: seq_def fv)
  note rs = resolve_strict_list [OF st, of E i d]
  show ?thesis
  proof (intro conjI impI allI)
    assume v: "set items \<subseteq> {PStr ''body'', PStr ''headers'', PStr ''redirect_query_params''}"
    then have "set items \<subseteq> set valid_keys" by (simp add: valid_keys_def)
    with rs show eq: "load_global_cfg_body E cfg w =
         from_backends cfg (PDict i (AList.update ''strict'' (PList j items) d))
           (w3\<lparr>next_id := Suc (next_id w3)\<rparr>)"
      unfolding body by (simp add: seq_def)
    fix g w'
    assume "load_global_cfg_body E cfg w = (Inr g, w')"
    with eq have "from_backends cfg (PDict i (AList.update ''strict'' (PList j items) d))
           (w3\<lparr>next_id := Suc (next_id w3)\<rparr>) = (Inr g, w')" by simp
    from from_backends_Inr [OF this]
    show "\<exists>d'. g = PDict i d' \<and> map_of d' ''strict'' = Some (PList j items)"
      by (auto simp: update_conv')
  next
    assume "\<not> set items \<subseteq> {PStr ''body'', PStr ''headers'', PStr ''redirect_query_params''}"
    then have "\<not> set items \<subseteq> set valid_keys" by (simp add: valid_keys_def)
    with rs show "load_global_cfg_body E cfg w =
         (Inl (InvalidConfigurationException
            (''Invalid values for 'strict' given - expected one of ''
              @ render E (PList (next_id w3)
                  [PStr ''body'', PStr ''headers'', PStr ''redirect_query_params''])
              @ '', got '' @ render E (PList j items))),
          w3\<lparr>next_id := Suc (next_id w3)\<rparr>)"
      unfolding body by (simp add: seq_def strict_msg_def valid_keys_def)
  qed
qed

theorem load_global_cfg_strict_hyphen_counterexample:
  "fst (load_global_cfg_body (env_of doc_plain)
        (config_of 1 [(''tavern_strict'', PList 50 [PStr ''redirect-query-params''])] []) world0)
      = Inl (InvalidConfigurationException
          ''Invalid values for 'strict' given - expected one of a list of ***, got a list of *'')
   \<and> fst (load_global_cfg_body (env_of doc_plain)
        (config_of 1 [(''tavern_strict'', PList 50 [PStr ''redirect_query_params''])] []) world0)
      = Inr (PDict 100 [(''name'', PStr ''demo''),
          (''strict'', PList 50 [PStr ''redirect_query_params'']),
          (''backends'', PDict 5 [(''http'', PNone), (''mqtt'', PNone)])])"
  by (simp add: run_defs example_defs)

theorem load_global_cfg_strict_witness:
  "(\<exists>d'. fst (load_global_cfg_body (env_of doc_plain)
        (config_of 1 [(''tavern_strict'', PList 50 [PStr ''body'', PStr ''redirect_query_params''])] [])
        world0) = Inr (PDict 100 d')
      \<and> map_of d' ''strict'' = Some (PList 50 [PStr ''body'', PStr ''redirect_query_params'']))
   \<and> fst (load_global_cfg_body (env_of doc_plain)
        (config_of 1 [(''tavern_strict'', PList 50 [PStr ''body'', PStr ''bogus''])] []) world0)
      = Inl (InvalidConfigurationException
          ''Invalid values for 'strict' given - expected one of a list of ***, got a list of **'')"
proof -
  let ?W1 = "world0\<lparr>next_id := 3,
         queries := [GetIni ''tavern-global-cfg'', GetOption ''tavern_global_cfg'']\<rparr>"
  let ?W2 = "world0\<lparr>next_id := 3,
         queries := [GetIni ''tavern-global-cfg'', GetOption ''tavern_global_cfg''],
         loads := [PList 2 []],
         debugs := [(''Nothing to format in global config files'', [])]\<rparr>"
  let ?W3 = "world0\<lparr>next_id := 4,
         queries := [GetIni ''tavern-global-cfg'', GetOption ''tavern_global_cfg'',
           GetIni ''tavern_strict'', GetIni ''tavern_strict''],
         loads := [PList 2 []],
         debugs := [(''Nothing to format in global config files'', [])]\<rparr>"
  let ?good = "config_of 1 [(''tavern_strict'', PList 50 [PStr ''body'', PStr ''redirect_query_params''])] []"
  let ?bad = "config_of 1 [(''tavern_strict'', PList 50 [PStr ''body'', PStr ''bogus''])] []"
  have cpg: "collect_paths ?good world0 = (Inr (PList 2 []), ?W1)"
    by (simp add: collect_paths_def or_empty_list_def py_add_def action_defs config_of_def world0_def)
  have cpb: "collect_paths ?bad world0 = (Inr (PList 2 []), ?W1)"
    by (simp add: collect_paths_def or_empty_list_def py_add_def action_defs config_of_def world0_def)
  have ld: "load_global_config (env_of doc_plain) (PList 2 []) = Inr doc_plain"
    by (simp add: env_of_def)
  have fv: "format_variables (env_of doc_plain) doc_plain (?W1\<lparr>loads := loads ?W1 @ [PList 2 []]\<rparr>)
      = (Inr (PDict 100 [(''name'', PStr ''demo'')]), ?W2)"
    by (simp add: format_variables_def action_defs doc_plain_def world0_def)
  have stg: "get_option_generic ?good ''tavern-strict''
        (PList (next_id ?W2) []) (?W2\<lparr>next_id := Suc (next_id ?W2)\<rparr>)
      = (Inr (PList 50 [PStr ''body'', PStr ''redirect_query_params'']), ?W3)"
    by (simp add: get_option_generic_def Let_def str_replace_def action_defs config_of_def world0_def)
  have stb: "get_option_generic ?bad ''tavern-strict''
        (PList (next_id ?W2) []) (?W2\<lparr>next_id := Suc (next_id ?W2)\<rparr>)
      = (Inr (PList 50 [PStr ''body'', PStr ''bogus'']), ?W3)"
    by (simp add: get_option_generic_def Let_def str_replace_def action_defs config_of_def world0_def)
  have run: "\<exists>g w'. load_global_cfg_body (env_of doc_plain) ?good world0 = (Inr g, w')"
    by (simp add: run_defs example_defs)
  then obtain g w' where run: "load_global_cfg_body (env_of doc_plain) ?good world0 = (Inr g, w')"
    by blast
  have "set [PStr ''body'', PStr ''redirect_query_params'']
      \<subseteq> {PStr ''body'', PStr ''headers'', PStr ''redirect_query_params''}" by simp
  with load_global_cfg_strict [OF cpg ld fv stg] run
  have "\<exists>d'. g = PDict 100 d'
      \<and> map_of d' ''strict'' = Some (PList 50 [PStr ''body'', PStr ''redirect_query_params''])"
    by blast
  with run have 1: "\<exists>d'. fst (load_global_cfg_body (env_of doc_plain) ?good world0) = Inr (PDict 100 d')
      \<and> map_of d' ''strict'' = Some (PList 50 [PStr ''body'', PStr ''redirect_query_params''])"
    by simp
  have "\<not> set [PStr ''body'', PStr ''bogus'']
      \<subseteq> {PStr ''body'', PStr ''headers'', PStr ''redirect_query_params''}" by simp
  with load_global_cfg_strict [OF cpb ld fv stb]
  have 2: "fst (load_global_cfg_body (env_of doc_plain) ?bad world0)
      = Inl (InvalidConfigurationException
          ''Invalid values for 'strict' given - expected one of a list of ***, got a list of **'')"
    by (simp add: env_of_def)
  from 1 2 show ?thesis by blast
qed

text \<open>
  C3, as the code has it. A command-line value that is there and differs from the
  persistent-file value, but is false in Python's sense (the empty string, or False),
  does not win: line 113 tests the truth of the value, not whether it is None.

  When the function returns, the settings object has under \<^verbatim>\<open>backends\<close> a
  dictionary with the keys \<^verbatim>\<open>http\<close> and \<^verbatim>\<open>mqtt\<close>. For each of the two, on
  its own, the value is what the persistent-file store answers for
  \<^verbatim>\<open>tavern-http-backend\<close> (or \<^verbatim>\<open>tavern-mqtt-backend\<close>), unless the command-line
  store answers \<^verbatim>\<open>tavern_http_backend\<close> (or \<^verbatim>\<open>tavern_mqtt_backend\<close>) with a
  true value that is not equal to it: then it is the command-line value.
\<close>

theorem load_global_cfg_backends:
  assumes "load_global_cfg_body E cfg w = (Inr g, w')"
  shows "\<exists>ih ch im cm i d n.
      getini cfg ''tavern-http-backend'' = Inr ih
    \<and> getoption cfg ''tavern_http_backend'' = Inr ch
    \<and> getini cfg ''tavern-mqtt-backend'' = Inr im
    \<and> getoption cfg ''tavern_mqtt_backend'' = Inr cm
    \<and> g = PDict i d
    \<and> map_of d ''backends'' = Some (PDict n
          [(''http'', if truthy ch \<and> \<not> py_eq ch ih then ch else ih),
           (''mqtt'', if truthy cm \<and> \<not> py_eq cm im then cm else im)])"
proof -
  from body_Inr [OF assms]
  obtain with_strict w3 w4 where rb: "resolve_backends cfg with_strict w3 = (Inr g, w4)"
    by blast
  from resolve_backends_Inr [OF rb]
  obtain i d ih ch im cm where
      s: "getini cfg ''tavern-http-backend'' = Inr ih"
         "getoption cfg ''tavern_http_backend'' = Inr ch"
         "getini cfg ''tavern-mqtt-backend'' = Inr im"
         "getoption cfg ''tavern_mqtt_backend'' = Inr cm"
    and g: "g = PDict i (AList.update ''backends''
        (PDict (next_id w3)
           [(''http'', if truthy ch \<and> \<not> py_eq ch ih then ch else ih),
            (''mqtt'', if truthy cm \<and> \<not> py_eq cm im then cm else im)]) d)"
    by blast
  have "map_of (AList.update ''backends''
        (PDict (next_id w3)
           [(''http'', if truthy ch \<and> \<not> py_eq ch ih then ch else ih),
            (''mqtt'', if truthy cm \<and> \<not> py_eq cm im then cm else im)]) d) ''backends''
      = Some (PDict (next_id w3)
           [(''http'', if truthy ch \<and> \<not> py_eq ch ih then ch else ih),
            (''mqtt'', if truthy cm \<and> \<not> py_eq cm im then cm else im)])"
    by (simp add: update_conv')
  with s g show ?thesis by blast
qed

theorem load_global_cfg_backends_witness:
  "(\<exists>i d n. fst (load_global_cfg_body (env_of doc_plain)
        (config_of 1 [(''tavern-http-backend'', PStr ''requests'')] []) world0) = Inr (PDict i d)
      \<and> map_of d ''backends'' = Some (PDict n [(''http'', PStr ''requests''), (''mqtt'', PNone)]))
   \<and> (\<exists>i d n. fst (load_global_cfg_body (env_of doc_plain)
        (config_of 1 [(''tavern-http-backend'', PStr ''requests'')]
                     [(''tavern_http_backend'', PStr ''custom'')]) world0) = Inr (PDict i d)
      \<and> map_of d ''backends'' = Some (PDict n [(''http'', PStr ''custom''), (''mqtt'', PNone)]))"
proof -
  let ?a = "config_of 1 [(''tavern-http-backend'', PStr ''requests'')] []"
  let ?b = "config_of 1 [(''tavern-http-backend'', PStr ''requests'')]
                     [(''tavern_http_backend'', PStr ''custom'')]"
  have "\<exists>g w'. load_global_cfg_body (env_of doc_plain) ?a world0 = (Inr g, w')"
    by (simp add: run_defs example_defs)
  then obtain ga wa where a: "load_global_cfg_body (env_of doc_plain) ?a world0 = (Inr ga, wa)"
    by blast
  have "\<exists>g w'. load_global_cfg_body (env_of doc_plain) ?b world0 = (Inr g, w')"
    by (simp add: run_defs example_defs)
  then obtain gb wb where b: "load_global_cfg_body (env_of doc_plain) ?b world0 = (Inr gb, wb)"
    by blast
  from load_global_cfg_backends [OF a]
  have "\<exists>i d n. ga = PDict i d
      \<and> map_of d ''backends'' = Some (PDict n [(''http'', PStr ''requests''), (''mqtt'', PNone)])"
    by (auto simp: config_of_def)
  moreover from load_global_cfg_backends [OF b]
  have "\<exists>i d n. gb = PDict i d
      \<and> map_of d ''backends'' = Some (PDict n [(''http'', PStr ''custom''), (''mqtt'', PNone)])"
    by (auto simp: config_of_def)
  ultimately show ?thesis using a b by simp
qed

theorem load_global_cfg_backends_falsy_counterexample:
  "fst (load_global_cfg_body (env_of doc_plain)
        (config_of 1 [(''tavern-http-backend'', PStr ''requests'')]
                     [(''tavern_http_backend'', PStr [])]) world0)
     = Inr (PDict 100 [(''name'', PStr ''demo''), (''strict'', PList 3 []),
          (''backends'', PDict 5 [(''http'', PStr ''requests''), (''mqtt'', PNone)])])
   \<and> fst (load_global_cfg_body (env_of doc_plain)
        (config_of 1 [(''tavern-http-backend'', PStr ''requests'')]
                     [(''tavern_http_backend'', PBool False)]) world0)
     = Inr (PDict 100 [(''name'', PStr ''demo''), (''strict'', PList 3 []),
          (''backends'', PDict 5 [(''http'', PStr ''requests''), (''mqtt'', PNone)])])"
  by (simp add: run_defs example_defs)

section \<open>Backend resolution: when the command line overrides\<close>

text \<open>
  C10. In the block of lines 105 to 116, run on a dictionary with the four answers of
  the stores at hand, the value stored for a backend is the command-line value exactly
  when that value is true and not equal to the persistent-file value: a command-line
  value that is None or the empty string, or that is equal to the persistent-file
  value, leaves the persistent-file value in use, and a stored value other than the
  persistent-file one comes from a true command-line value that differs from it.
\<close>

theorem resolve_backends_override:
  assumes "getini cfg ''tavern-http-backend'' = Inr ih"
    and "getoption cfg ''tavern_http_backend'' = Inr ch"
    and "getini cfg ''tavern-mqtt-backend'' = Inr im"
    and "getoption cfg ''tavern_mqtt_backend'' = Inr cm"
  shows "\<exists>bk. fst (resolve_backends cfg (PDict i d) w)
        = Inr (PDict i (AList.update ''backends'' (PDict (next_id w) bk) d))
    \<and> map_of bk ''http'' = Some (if truthy ch \<and> \<not> py_eq ch ih then ch else ih)
    \<and> map_of bk ''mqtt'' = Some (if truthy cm \<and> \<not> py_eq cm im then cm else im)
    \<and> (ch = PNone \<or> ch = PStr [] \<or> py_eq ch ih \<longrightarrow> map_of bk ''http'' = Some ih)
    \<and> (cm = PNone \<or> cm = PStr [] \<or> py_eq cm im \<longrightarrow> map_of bk ''mqtt'' = Some im)
    \<and> (map_of bk ''http'' \<noteq> Some ih \<longrightarrow> truthy ch \<and> \<not> py_eq ch ih)
    \<and> (map_of bk ''mqtt'' \<noteq> Some im \<longrightarrow> truthy cm \<and> \<not> py_eq cm im)"
  unfolding resolve_backends_result [OF assms]
  by (rule exI [of _ "[(''http'', if truthy ch \<and> \<not> py_eq ch ih then ch else ih),
            (''mqtt'', if truthy cm \<and> \<not> py_eq cm im then cm else im)]"]) auto

theorem resolve_backends_override_witness:
  "\<exists>bk. fst (resolve_backends
      (config_of 1 [(''tavern-http-backend'', PStr ''requests''),
                    (''tavern-mqtt-backend'', PStr ''paho-mqtt'')]
                   [(''tavern_http_backend'', PStr []),
                    (''tavern_mqtt_backend'', PStr ''paho-mqtt'')])
      (PDict 100 [(''name'', PStr ''demo'')]) world0)
    = Inr (PDict 100 (AList.update ''backends'' (PDict (next_id world0) bk)
        [(''name'', PStr ''demo'')]))
   \<and> map_of bk ''http'' = Some (PStr ''requests'')
   \<and> map_of bk ''mqtt'' = Some (PStr ''paho-mqtt'')"
proof -
  let ?cfg = "config_of 1 [(''tavern-http-backend'', PStr ''requests''),
                    (''tavern-mqtt-backend'', PStr ''paho-mqtt'')]
                   [(''tavern_http_backend'', PStr []),
                    (''tavern_mqtt_backend'', PStr ''paho-mqtt'')]"
  have s: "getini ?cfg ''tavern-http-backend'' = Inr (PStr ''requests'')"
     "getoption ?cfg ''tavern_http_backend'' = Inr (PStr [])"
     "getini ?cfg ''tavern-mqtt-backend'' = Inr (PStr ''paho-mqtt'')"
     "getoption ?cfg ''tavern_mqtt_backend'' = Inr (PStr ''paho-mqtt'')"
    by (simp_all add: config_of_def)
  from resolve_backends_override [OF s, of 100 "[(''name'', PStr ''demo'')]" world0]
  show ?thesis by auto
qed

section \<open>The cache of the loader\<close>







text \<open>
  The state that \<open>left_as\<close> gives to a run that returns is the object that the run
  returns.
\<close>

lemma seq_assoc: "seq (seq m f) g = seq m (\<lambda>x. seq (f x) g)"
  by (rule ext) (simp add: seq_def split: prod.splits sum.splits)

lemma ret_seq: "seq (ret x) f = f x"
  by (rule ext) (simp add: seq_def ret_def)

lemma backends_loop_two:
  "backends_loop cfg [a, b] g = seq (backends_loop cfg [a] g) (backends_loop cfg [b])"
  by (simp add: backends_loop.simps(2) [of cfg a "[b]"] backends_loop.simps(2) [of cfg a "[]"]
        seq_assoc ret_seq del: backends_loop.simps(2))

lemma left_as_returned:
  assumes "load_global_cfg_body E cfg w = (Inr r, w')"
  shows "left_as E cfg w = Some r"
proof -
  from assms obtain paths w1 loaded w2 f w3 s w4 g w5 where
    a: "collect_paths cfg w = (Inr paths, w1)"
    and b: "call_load_global_config E paths w1 = (Inr loaded, w2)"
    and c: "format_variables E loaded w2 = (Inr f, w3)"
    and d: "resolve_strict E cfg f w3 = (Inr s, w4)"
    and e: "resolve_backends cfg s w4 = (Inr g, w5)"
    and r: "r = g"
    unfolding load_global_cfg_body_def seq_Inr
    by (auto simp: ret_def logger_debug_def)
  from e obtain empty v1 s1 v2 bk v3 m v4 where
    e1: "new_dict [] w4 = (Inr empty, v1)"
    and e2: "py_setitem s ''backends'' empty = Inr s1"
    and e3: "new_list [PStr ''http'', PStr ''mqtt''] v1 = (Inr bk, v2)"
    and e4: "backends_loop cfg [''http''] s1 v2 = (Inr m, v3)"
    and e5: "backends_loop cfg [''mqtt''] m v3 = (Inr g, v4)"
    unfolding resolve_backends_def backends_loop_two seq_Inr by (auto simp: lift_def)
  have 0: "seq (collect_paths cfg) (call_load_global_config E) w = (Inr loaded, w2)"
    using a b by (simp add: seq_def)
  have 3: "seq (new_dict []) (\<lambda>empty. lift (py_setitem s ''backends'' empty)) w4 = (Inr s1, v1)"
    using e1 e2 by (simp add: seq_def lift_def)
  have 4: "seq (new_list [PStr ''http'', PStr ''mqtt''])
             (\<lambda>backends. backends_loop cfg [''http''] s1) v1 = (Inr m, v3)"
    using e3 e4 by (simp add: seq_def)
  show ?thesis
    unfolding left_as_def 0 progress.simps prod.case sum.case c d 3 4 e5 r ..
qed

text \<open>
  Counting the calls of the loader over several calls of \<^verbatim>\<open>load_global_cfg\<close>: a
  call that finds its entry loads nothing; a call for a handle with empty tables that
  finds no entry loads once and puts its key first; calls for distinct handles that the
  cache does not hold load once each and leave the 128 most recent keys.
\<close>

lemmas cache_defs = load_global_cfg_def left_as_def refresh_def lru_maxsize_def














text \<open>
  Two handles for which the loader returns one object. The second call changes the object
  in place, so a third call, for the first handle again, returns from the cache the
  object with the backend of the second handle.
\<close>

lemma load_global_cfg_shared_object:
  "fst (load_global_cfg (env_of doc_plain) Positional
          (config_of 1 [(''tavern-http-backend'', PStr ''requests'')] []) world0)
     = Inr (PDict 100 [(''name'', PStr ''demo''), (''strict'', PList 3 []),
          (''backends'', PDict 5 [(''http'', PStr ''requests''), (''mqtt'', PNone)])])
   \<and> fst (load_global_cfg (env_of doc_plain) Positional
          (config_of 1 [(''tavern-http-backend'', PStr ''requests'')] [])
          (call_each (env_of doc_plain)
             [(Positional, config_of 1 [(''tavern-http-backend'', PStr ''requests'')] []),
              (Positional, config_of 2 [(''tavern-http-backend'', PStr ''custom'')] [])] world0))
     = Inr (PDict 100 [(''name'', PStr ''demo''), (''strict'', PList 10 []),
          (''backends'', PDict 12 [(''http'', PStr ''custom''), (''mqtt'', PNone)])])"
proof -
  let ?E = "env_of doc_plain"
  let ?h1 = "config_of 1 [(''tavern-http-backend'', PStr ''requests'')] []"
  let ?h2 = "config_of 2 [(''tavern-http-backend'', PStr ''custom'')] []"
  let ?r1 = "PDict 100 [(''name'', PStr ''demo''), (''strict'', PList 3 []),
          (''backends'', PDict 5 [(''http'', PStr ''requests''), (''mqtt'', PNone)])]"
  let ?r2 = "PDict 100 [(''name'', PStr ''demo''), (''strict'', PList 10 []),
          (''backends'', PDict 12 [(''http'', PStr ''custom''), (''mqtt'', PNone)])]"
  obtain w1 where 1: "load_global_cfg ?E Positional ?h1 world0 = (Inr ?r1, w1)"
    and n1: "next_id w1 = 7" and c1: "cache w1 = [((Positional, 1), ?r1)]"
    by (simp add: cache_defs run_defs example_defs)
  have "\<exists>w2. load_global_cfg ?E Positional ?h2 w1 = (Inr ?r2, w2)
      \<and> cache w2 = [((Positional, 2), ?r2), ((Positional, 1), ?r2)]"
    by (simp add: cache_defs run_defs env_of_def config_of_def doc_plain_def n1 c1)
  then obtain w2 where 2: "load_global_cfg ?E Positional ?h2 w1 = (Inr ?r2, w2)"
    and c2: "cache w2 = [((Positional, 2), ?r2), ((Positional, 1), ?r2)]"
    by blast
  have 3: "fst (load_global_cfg ?E Positional ?h1 w2) = Inr ?r2"
    by (simp add: load_global_cfg_def config_of_def c2)
  show ?thesis
    unfolding call_each.simps fst_conv snd_conv 1 2 using 3 by simp
qed




end
